theory Spec2Isabelle
  imports Complex_Main
begin

section \<open>WinRateCallback (trl/trainer/callback.py)\<close>

text \<open>
  A shallow embedding of the two hooks of \<^verbatim>\<open>WinRateCallback\<close>:
  \<^verbatim>\<open>on_train_begin\<close>, which generates one reference completion per prompt of the
  local shard, and \<^verbatim>\<open>on_evaluate\<close>, which generates policy completions, has them
  judged against the references and logs the win rate.

  \<^verbatim>\<open>self.prompt_dataset\<close> is declared a \<^verbatim>\<open>Dataset\<close>, but the hooks read it in ways
  that no single kind of value supports (\<^verbatim>\<open>prompts[0]\<close> on line 46,
  \<^verbatim>\<open>Dataset.from_dict(prompts)\<close> on line 76), so the model has both kinds a caller can
  pass: a \<^verbatim>\<open>Dataset\<close>, a list of rows, and a dict of columns. Each line reads the value
  as Python does for that kind.

  Python's \<^verbatim>\<open>int / int\<close> is the exact quotient, a rational number (the float rounding
  of the quotient is not modelled). A tensor of shape \<^verbatim>\<open>[1, L]\<close> is the list of its
  \<open>L\<close> token ids: the hooks tokenize one conversation at a time, so the batch dimension has
  one row and \<^verbatim>\<open>text_generations[0]\<close> is the decoding of that row. \<^verbatim>\<open>print\<close>,
  \<^verbatim>\<open>tqdm\<close> and \<^verbatim>\<open>.to(model.device)\<close> change no value and are left out, except where
  the printed expression can raise.
\<close>

subsection \<open>Python values and errors\<close>

datatype py_error =
  IndexError | KeyError | ZeroDivisionError | ArrowInvalid | AttributeError | ValueError

datatype outcome = Returned | Raised py_error

text \<open>\<^verbatim>\<open>xs[i]\<close>: a negative index counts from the end, an index out of range raises.\<close>

definition py_getitem :: "'a list \<Rightarrow> int \<Rightarrow> py_error + 'a" where
  "py_getitem xs i =
     (let n = int (length xs);
          j = (if i < 0 then i + n else i)
      in if j < 0 \<or> n \<le> j then Inl IndexError else Inr (xs ! nat j))"

text \<open>A slice bound is clamped into \<open>0..len\<close>, never raising.\<close>

definition slice_bound :: "nat \<Rightarrow> int \<Rightarrow> nat" where
  "slice_bound n k = (if k < 0 then nat (max 0 (int n + k)) else min (nat k) n)"

text \<open>\<^verbatim>\<open>xs[:k]\<close> and \<^verbatim>\<open>xs[k:]\<close>.\<close>

definition py_slice_to :: "'a list \<Rightarrow> int \<Rightarrow> 'a list" where
  "py_slice_to xs k = take (slice_bound (length xs) k) xs"

definition py_slice_from :: "'a list \<Rightarrow> int \<Rightarrow> 'a list" where
  "py_slice_from xs k = drop (slice_bound (length xs) k) xs"

text \<open>A list comprehension \<^verbatim>\<open>[f(x) for x in xs]\<close> whose body can raise.\<close>

fun list_comp :: "('a \<Rightarrow> py_error + 'b) \<Rightarrow> 'a list \<Rightarrow> py_error + 'b list" where
  "list_comp f [] = Inr []"
| "list_comp f (x # xs) =
     (case f x of
        Inl e \<Rightarrow> Inl e
      | Inr y \<Rightarrow> (case list_comp f xs of Inl e \<Rightarrow> Inl e | Inr ys \<Rightarrow> Inr (y # ys)))"

subsection \<open>Data model\<close>

text \<open>One turn of a conversation, \<^verbatim>\<open>{"role": ..., "content": ...}\<close>.\<close>

record turn =
  role :: string
  content :: string

text \<open>One row of the prompt dataset: the columns \<^verbatim>\<open>"prompt"\<close> and \<^verbatim>\<open>"chosen"\<close>.\<close>

record prompt_row =
  prompt :: string
  chosen :: "turn list"

text \<open>
  A dict of columns: the two columns the hooks read, each present or not, and the lengths
  of any other columns (their contents are never read).
\<close>

record columns =
  prompt_column :: "string list option"
  chosen_column :: "turn list list option"
  other_columns :: "nat list"

definition column_lengths :: "columns \<Rightarrow> nat list" where
  "column_lengths cols =
     (case prompt_column cols of None \<Rightarrow> [] | Some ps \<Rightarrow> [length ps]) @
     (case chosen_column cols of None \<Rightarrow> [] | Some cs \<Rightarrow> [length cs]) @
     other_columns cols"

text \<open>What \<^verbatim>\<open>self.prompt_dataset\<close> can hold.\<close>

datatype prompt_data = Dataset "prompt_row list" | Dict columns

text \<open>\<^verbatim>\<open>len(...)\<close>: the rows of a \<^verbatim>\<open>Dataset\<close>, the keys of a dict.\<close>

fun py_len :: "prompt_data \<Rightarrow> nat" where
  "py_len (Dataset rows) = length rows"
| "py_len (Dict cols) = length (column_lengths cols)"

text \<open>
  One row of \<^verbatim>\<open>results_dict\<close>: the columns \<^verbatim>\<open>"results"\<close>, \<^verbatim>\<open>"prompts"\<close> and
  \<^verbatim>\<open>"completions"\<close>.
\<close>

record judged_row =
  row_results :: int
  row_prompts :: string
  row_completions :: "string list"

text \<open>What is logged: a dict from keys to a float, an int or a \<^verbatim>\<open>wandb.Table\<close>.\<close>

datatype cell = Str string | Num int

datatype log_value = LogFloat rat | LogInt int | LogTable "string list" "cell list list"

type_synonym log_entry = "(string \<times> log_value) list"

text \<open>The tokenizer passed in \<^verbatim>\<open>kwargs["tokenizer"]\<close>.\<close>

record tokenizer =
  apply_chat_template :: "turn list \<Rightarrow> nat list"
  batch_decode :: "nat list \<Rightarrow> string"

text \<open>
  The libraries the hooks call, as parameters: the accelerator of the trainer (this
  process's share of \<^verbatim>\<open>split_between_processes(..., apply_padding=True)\<close>, for the
  rows of a \<^verbatim>\<open>Dataset\<close> and for the columns of a dict, and \<^verbatim>\<open>is_main_process\<close>),
  \<^verbatim>\<open>gather_object\<close>, \<^verbatim>\<open>unwrap_model_for_generation\<close>, the model's \<^verbatim>\<open>generate\<close>,
  the judge's \<^verbatim>\<open>judge_batch\<close> and \<^verbatim>\<open>is_wandb_available\<close>.
\<close>

record ('m, 'g) env =
  split_rows :: "prompt_row list \<Rightarrow> prompt_row list"
  split_columns :: "columns \<Rightarrow> columns"
  is_main_process :: bool
  gather_object :: "judged_row list \<Rightarrow> judged_row list"
  unwrap_model_for_generation :: "'m \<Rightarrow> 'm"
  generate :: "'m \<Rightarrow> 'g \<Rightarrow> nat list \<Rightarrow> nat list"
  judge_batch :: "string list \<Rightarrow> string list list \<Rightarrow> int list"
  is_wandb_available :: bool

text \<open>
  \<^verbatim>\<open>accelerator.split_between_processes(self.prompt_dataset, apply_padding=True)\<close>, the
  value the \<^verbatim>\<open>with\<close> statement binds. The hooks pass \<^verbatim>\<open>self.prompt_dataset\<close> itself;
  what the library does with the object is not in the sources: the shard of a
  \<^verbatim>\<open>Dataset\<close> is a new \<^verbatim>\<open>Dataset\<close>, and a dict is the very object passed in, its
  columns replaced by their shards.
\<close>

fun split_between_processes :: "('m, 'g) env \<Rightarrow> prompt_data \<Rightarrow> prompt_data" where
  "split_between_processes E (Dataset rows) = Dataset (split_rows E rows)"
| "split_between_processes E (Dict cols) = Dict (split_columns E cols)"

text \<open>\<^verbatim>\<open>self.prompt_dataset\<close> after that call: a dict has been rewritten in place.\<close>

fun after_split :: "('m, 'g) env \<Rightarrow> prompt_data \<Rightarrow> prompt_data" where
  "after_split E (Dataset rows) = Dataset rows"
| "after_split E (Dict cols) = Dict (split_columns E cols)"

text \<open>
  The callback's fields (\<^verbatim>\<open>self.prompt_dataset\<close>, \<^verbatim>\<open>self.generation_config\<close>,
  \<^verbatim>\<open>self.completions\<close>, \<^verbatim>\<open>self.ref_completions\<close>), what it reaches through
  \<^verbatim>\<open>self.trainer\<close> (\<^verbatim>\<open>model_wrapped\<close>, the train/eval mode of that model,
  \<^verbatim>\<open>state.log_history\<close>, and the entries the trainer's \<^verbatim>\<open>log\<close> has reported), and
  the entries sent to \<^verbatim>\<open>wandb.log\<close>.
\<close>

record ('m, 'g) callback =
  prompt_dataset :: prompt_data
  generation_config :: 'g
  completions :: "string list"
  ref_completions :: "string list"
  model_wrapped :: 'm
  training :: bool
  log_history :: "log_entry list"
  reported :: "log_entry list"
  wandb_logged :: "log_entry list"

text \<open>\<^verbatim>\<open>__init__\<close>: both completion lists start empty.\<close>

definition init :: "prompt_data \<Rightarrow> 'g \<Rightarrow> 'm \<Rightarrow> bool \<Rightarrow> log_entry list \<Rightarrow> ('m, 'g) callback" where
  "init dataset config model mode history =
     \<lparr>prompt_dataset = dataset, generation_config = config, completions = [],
      ref_completions = [], model_wrapped = model, training = mode,
      log_history = history, reported = [], wandb_logged = []\<rparr>"

text \<open>
  Modelled from the spec: the host trainer's \<^verbatim>\<open>log\<close> is not part of the sources. It
  hands the entry to the logging sink and retains it in the trainer's log history.
\<close>

definition trainer_log :: "log_entry \<Rightarrow> ('m, 'g) callback \<Rightarrow> ('m, 'g) callback" where
  "trainer_log logs s =
     s\<lparr>log_history := log_history s @ [logs], reported := reported s @ [logs]\<rparr>"

definition wandb_log :: "log_entry \<Rightarrow> ('m, 'g) callback \<Rightarrow> ('m, 'g) callback" where
  "wandb_log logs s = s\<lparr>wandb_logged := wandb_logged s @ [logs]\<rparr>"

subsection \<open>Generating one completion\<close>

text \<open>
  Lines 52-53 and 85-86: \<^verbatim>\<open>if messages[-1]["role"] == "assistant": messages = messages[:-1]\<close>.
\<close>

definition generation_input :: "turn list \<Rightarrow> py_error + turn list" where
  "generation_input messages =
     (case py_getitem messages (- 1) of
        Inl e \<Rightarrow> Inl e
      | Inr final \<Rightarrow>
          if role final = ''assistant'' then Inr (py_slice_to messages (- 1))
          else Inr messages)"

text \<open>
  Lines 55-63 and 87-95: tokenize with the chat template, generate, and keep
  \<^verbatim>\<open>generation[:, padded_prompt_length:]\<close>.
\<close>

definition completion_tokens ::
  "('m, 'g) env \<Rightarrow> tokenizer \<Rightarrow> 'm \<Rightarrow> 'g \<Rightarrow> turn list \<Rightarrow> nat list" where
  "completion_tokens E tok unwrapped_model config messages =
     (let tokenized_prompt = apply_chat_template tok messages;
          generation = generate E unwrapped_model config tokenized_prompt;
          padded_prompt_length = length tokenized_prompt
      in py_slice_from generation (int padded_prompt_length))"

text \<open>The body of both loops up to the decoded text \<^verbatim>\<open>text_generations[0]\<close>.\<close>

definition generate_completion ::
  "('m, 'g) env \<Rightarrow> tokenizer \<Rightarrow> 'm \<Rightarrow> 'g \<Rightarrow> turn list \<Rightarrow> py_error + string" where
  "generate_completion E tok unwrapped_model config messages =
     (case generation_input messages of
        Inl e \<Rightarrow> Inl e
      | Inr messages' \<Rightarrow>
          Inr (batch_decode tok (completion_tokens E tok unwrapped_model config messages')))"

subsection \<open>on_train_begin\<close>

text \<open>
  Line 46, \<^verbatim>\<open>prompts[0]\<close>: the first row of a \<^verbatim>\<open>Dataset\<close>; on a dict of columns
  \<open>0\<close> is not a key.
\<close>

fun prompts_getitem_0 :: "prompt_data \<Rightarrow> py_error + prompt_row" where
  "prompts_getitem_0 (Dataset rows) = py_getitem rows 0"
| "prompts_getitem_0 (Dict cols) = Inl KeyError"

text \<open>Line 50, \<^verbatim>\<open>prompts["chosen"]\<close>.\<close>

fun prompts_getitem_chosen :: "prompt_data \<Rightarrow> py_error + turn list list" where
  "prompts_getitem_chosen (Dataset rows) = Inr (map chosen rows)"
| "prompts_getitem_chosen (Dict cols) =
     (case chosen_column cols of None \<Rightarrow> Inl KeyError | Some cs \<Rightarrow> Inr cs)"

text \<open>
  The loop of lines 50-67 over \<^verbatim>\<open>prompts["chosen"]\<close>: each response is appended to
  \<^verbatim>\<open>self.ref_completions\<close>; a raise leaves the responses appended so far.
\<close>

fun ref_loop ::
  "('m, 'g) env \<Rightarrow> tokenizer \<Rightarrow> 'm \<Rightarrow> turn list list \<Rightarrow> ('m, 'g) callback
    \<Rightarrow> outcome \<times> ('m, 'g) callback" where
  "ref_loop E tok unwrapped_model [] s = (Returned, s)"
| "ref_loop E tok unwrapped_model (messages # rest) s =
     (case generate_completion E tok unwrapped_model (generation_config s) messages of
        Inl e \<Rightarrow> (Raised e, s)
      | Inr ref_response \<Rightarrow>
          ref_loop E tok unwrapped_model rest
            (s\<lparr>ref_completions := ref_completions s @ [ref_response]\<rparr>))"

definition on_train_begin ::
  "('m, 'g) env \<Rightarrow> (string \<rightharpoonup> tokenizer) \<Rightarrow> ('m, 'g) callback
    \<Rightarrow> outcome \<times> ('m, 'g) callback" where
  "on_train_begin E kwargs s =
     (let model = model_wrapped s in
      case kwargs ''tokenizer'' of
        None \<Rightarrow> (Raised KeyError, s)
      | Some tok \<Rightarrow>
          (let prompts = split_between_processes E (prompt_dataset s);
               s0 = s\<lparr>prompt_dataset := after_split E (prompt_dataset s)\<rparr>
           in case prompts_getitem_0 prompts of
                Inl e \<Rightarrow> (Raised e, s0)
              | Inr first_row \<Rightarrow>
                  (let unwrapped_model = unwrap_model_for_generation E model;
                       s1 = s0\<lparr>training := False\<rparr>
                   in case prompts_getitem_chosen prompts of
                        Inl e \<Rightarrow> (Raised e, s1)
                      | Inr conversations \<Rightarrow>
                          (case ref_loop E tok unwrapped_model conversations s1 of
                             (Raised e, s2) \<Rightarrow> (Raised e, s2)
                           | (Returned, s2) \<Rightarrow> (Returned, s2\<lparr>training := True\<rparr>)))))"

subsection \<open>on_evaluate\<close>

text \<open>
  Line 76, \<^verbatim>\<open>Dataset.from_dict(prompts)\<close>: a dict whose columns have one length becomes
  a \<^verbatim>\<open>Dataset\<close> of these columns; a \<^verbatim>\<open>Dataset\<close> is no mapping and the call raises.
\<close>

fun dataset_from_dict :: "prompt_data \<Rightarrow> py_error + columns" where
  "dataset_from_dict (Dataset rows) = Inl AttributeError"
| "dataset_from_dict (Dict cols) =
     (if list_all (\<lambda>n. n = hd (column_lengths cols)) (column_lengths cols) then Inr cols
      else Inl ArrowInvalid)"

text \<open>
  Lines 78 and 83, \<^verbatim>\<open>local_dataset["prompt"]\<close> and \<^verbatim>\<open>local_dataset["chosen"]\<close>: a
  \<^verbatim>\<open>Dataset\<close> refuses a column it does not have (\<open>ValueError\<close> stands for the
  library's error).
\<close>

definition local_dataset_prompt :: "columns \<Rightarrow> py_error + string list" where
  "local_dataset_prompt local_dataset =
     (case prompt_column local_dataset of None \<Rightarrow> Inl ValueError | Some ps \<Rightarrow> Inr ps)"

definition local_dataset_chosen :: "columns \<Rightarrow> py_error + turn list list" where
  "local_dataset_chosen local_dataset =
     (case chosen_column local_dataset of None \<Rightarrow> Inl ValueError | Some cs \<Rightarrow> Inr cs)"

text \<open>
  The loop of lines 82-101 over \<^verbatim>\<open>enumerate(local_dataset["chosen"])\<close>, appending
  \<^verbatim>\<open>[response0, response1]\<close> to \<^verbatim>\<open>annotation_batch["completions"]\<close>.
\<close>

fun eval_loop ::
  "('m, 'g) env \<Rightarrow> tokenizer \<Rightarrow> 'm \<Rightarrow> 'g \<Rightarrow> string list \<Rightarrow> nat \<Rightarrow> string list list
    \<Rightarrow> turn list list \<Rightarrow> py_error + string list list" where
  "eval_loop E tok unwrapped_model config refs i batch [] = Inr batch"
| "eval_loop E tok unwrapped_model config refs i batch (messages # rest) =
     (case generate_completion E tok unwrapped_model config messages of
        Inl e \<Rightarrow> Inl e
      | Inr response0 \<Rightarrow>
          (case py_getitem refs (int i) of
             Inl e \<Rightarrow> Inl e
           | Inr response1 \<Rightarrow>
               eval_loop E tok unwrapped_model config refs (Suc i)
                 (batch @ [[response0, response1]]) rest))"

text \<open>
  \<^verbatim>\<open>Dataset.from_dict\<close> of the three columns of lines 105-111, as rows; columns of
  different lengths are refused.
\<close>

definition from_dict ::
  "int list \<Rightarrow> string list \<Rightarrow> string list list \<Rightarrow> py_error + judged_row list" where
  "from_dict results_col prompts_col completions_col =
     (if length results_col = length prompts_col \<and> length prompts_col = length completions_col
      then Inr (map (\<lambda>(r, p, c). \<lparr>row_results = r, row_prompts = p, row_completions = c\<rparr>)
                  (zip results_col (zip prompts_col completions_col)))
      else Inl ArrowInvalid)"

text \<open>
  Lines 75-111, this process's judged rows: the prompts are split, made a \<^verbatim>\<open>Dataset\<close>
  and their columns read; the model is put in eval mode, the completions are generated
  and paired, the model is put back in train mode, and the judge is called with the
  prompts and the pairs.
\<close>

definition local_results ::
  "('m, 'g) env \<Rightarrow> tokenizer \<Rightarrow> ('m, 'g) callback
    \<Rightarrow> (py_error + judged_row list) \<times> ('m, 'g) callback" where
  "local_results E tok s =
     (let prompts = split_between_processes E (prompt_dataset s);
          s0 = s\<lparr>prompt_dataset := after_split E (prompt_dataset s)\<rparr>
      in case dataset_from_dict prompts of
           Inl e \<Rightarrow> (Inl e, s0)
         | Inr local_dataset \<Rightarrow>
             (case local_dataset_prompt local_dataset of
                Inl e \<Rightarrow> (Inl e, s0)
              | Inr batch_prompts \<Rightarrow>
                  (let unwrapped_model = unwrap_model_for_generation E (model_wrapped s0);
                       s1 = s0\<lparr>training := False\<rparr>
                   in case local_dataset_chosen local_dataset of
                        Inl e \<Rightarrow> (Inl e, s1)
                      | Inr conversations \<Rightarrow>
                          (case eval_loop E tok unwrapped_model (generation_config s1)
                                  (ref_completions s1) 0 [] conversations of
                             Inl e \<Rightarrow> (Inl e, s1)
                           | Inr batch_completions \<Rightarrow>
                               (let s2 = s1\<lparr>training := True\<rparr>;
                                    results = judge_batch E batch_prompts batch_completions
                                in (from_dict results batch_prompts batch_completions, s2))))))"

text \<open>
  Line 116, \<^verbatim>\<open>Dataset.from_list(results_dict)\<close>: the rows as a \<^verbatim>\<open>Dataset\<close>; an empty
  list gives a \<^verbatim>\<open>Dataset\<close> without columns (\<open>None\<close>).
\<close>

definition from_list :: "judged_row list \<Rightarrow> judged_row list option" where
  "from_list rows = (if rows = [] then None else Some rows)"

text \<open>
  \<^verbatim>\<open>dataset.select(indices)\<close>: the rows at the indices, in that order; a \<^verbatim>\<open>Dataset\<close>
  without rows is returned as it is.
\<close>

definition select :: "'a list option \<Rightarrow> nat list \<Rightarrow> py_error + 'a list option" where
  "select dataset indices =
     (case dataset of
        None \<Rightarrow> Inr None
      | Some [] \<Rightarrow> Inr (Some [])
      | Some (row # rows) \<Rightarrow>
          (case list_comp (\<lambda>i. py_getitem (row # rows) (int i)) indices of
             Inl e \<Rightarrow> Inl e
           | Inr picked \<Rightarrow> Inr (Some picked)))"

text \<open>
  \<^verbatim>\<open>results_dataset["results"]\<close>, refused by a \<^verbatim>\<open>Dataset\<close> without columns, and the
  rows of \<^verbatim>\<open>results_dataset\<close>.
\<close>

definition results_column :: "judged_row list option \<Rightarrow> py_error + int list" where
  "results_column results_dataset =
     (case results_dataset of None \<Rightarrow> Inl ValueError | Some rows \<Rightarrow> Inr (map row_results rows))"

definition rows_of :: "'a list option \<Rightarrow> 'a list" where
  "rows_of dataset = (case dataset of None \<Rightarrow> [] | Some rows \<Rightarrow> rows)"

text \<open>Line 118: \<^verbatim>\<open>sum([r == 0 for r in results]) / len(results)\<close>.\<close>

definition win_rate :: "int list \<Rightarrow> py_error + rat" where
  "win_rate results =
     (let wins = sum_list (map (\<lambda>r. if r = 0 then 1 else 0) results) :: int;
          total = int (length results)
      in if total = 0 then Inl ZeroDivisionError else Inr (of_int wins / of_int total))"

text \<open>
  Lines 116-118: cut the gathered rows to \<^verbatim>\<open>range(dataset_len)\<close>, read the results
  column, then the win rate.
\<close>

definition truncated_win_rate :: "nat \<Rightarrow> judged_row list \<Rightarrow> py_error + (judged_row list \<times> rat)" where
  "truncated_win_rate dataset_len results_dict =
     (case select (from_list results_dict) [0..<dataset_len] of
        Inl e \<Rightarrow> Inl e
      | Inr results_dataset \<Rightarrow>
          (case results_column results_dataset of
             Inl e \<Rightarrow> Inl e
           | Inr results \<Rightarrow>
               (case win_rate results of
                  Inl e \<Rightarrow> Inl e
                | Inr w \<Rightarrow> Inr (rows_of results_dataset, w))))"

text \<open>Lines 130-137: the table of generations.\<close>

definition winrate_generations :: "string list \<Rightarrow> string list \<Rightarrow> string list \<Rightarrow> int list \<Rightarrow> log_value" where
  "winrate_generations prompts policy ref chosen_indices =
     LogTable [''Prompt'', ''Policy'', ''Ref Model'', ''Chosen index'']
       (map (\<lambda>(p, pol, r, index). [Str p, Str pol, Str r, Num index])
          (zip prompts (zip policy (zip ref chosen_indices))))"

text \<open>\<^verbatim>\<open>log_history.pop()\<close>: removes the last entry, raising on an empty list.\<close>

definition pop_log_history :: "('m, 'g) callback \<Rightarrow> outcome \<times> ('m, 'g) callback" where
  "pop_log_history s =
     (case log_history s of
        [] \<Rightarrow> (Raised IndexError, s)
      | _ # _ \<Rightarrow> (Returned, s\<lparr>log_history := butlast (log_history s)\<rparr>))"

text \<open>Lines 114-140, the main process's part, on the gathered rows.\<close>

definition aggregate ::
  "('m, 'g) env \<Rightarrow> int \<Rightarrow> judged_row list \<Rightarrow> ('m, 'g) callback \<Rightarrow> outcome \<times> ('m, 'g) callback" where
  "aggregate E global_step results_dict s =
     (let dataset_len = py_len (prompt_dataset s) in
      case truncated_win_rate dataset_len results_dict of
        Inl e \<Rightarrow> (Raised e, s)
      | Inr (results_dataset, w) \<Rightarrow>
          (let s1 = trainer_log [(''win_rate'', LogFloat w)] s in
           if is_wandb_available E then
             (let s2 = wandb_log [(''eval_win_rate'', LogFloat w),
                                  (''train/global_step'', LogInt global_step)] s1;
                  prompts = map row_prompts results_dataset
              in case list_comp (\<lambda>c. py_getitem c 0) (map row_completions results_dataset) of
                   Inl e \<Rightarrow> (Raised e, s2)
                 | Inr policy \<Rightarrow>
                     (case list_comp (\<lambda>c. py_getitem c 1) (map row_completions results_dataset) of
                        Inl e \<Rightarrow> (Raised e, s2)
                      | Inr ref \<Rightarrow>
                          (let chosen_indices = map row_results results_dataset;
                               s3 = trainer_log
                                      [(''winrate_generations'',
                                        winrate_generations prompts policy ref chosen_indices)] s2
                           in pop_log_history s3)))
           else (Returned, s1)))"

definition on_evaluate ::
  "('m, 'g) env \<Rightarrow> int \<Rightarrow> (string \<rightharpoonup> tokenizer) \<Rightarrow> ('m, 'g) callback
    \<Rightarrow> outcome \<times> ('m, 'g) callback" where
  "on_evaluate E global_step kwargs s =
     (case kwargs ''tokenizer'' of
        None \<Rightarrow> (Raised KeyError, s)
      | Some tok \<Rightarrow>
          (case local_results E tok s of
             (Inl e, s2) \<Rightarrow> (Raised e, s2)
           | (Inr rows, s2) \<Rightarrow>
               let results_dict = gather_object E rows in
               if is_main_process E then aggregate E global_step results_dict s2
               else (Returned, s2)))"

subsection \<open>An example run\<close>

text \<open>
  Modelled from the spec: the accelerator's \<^verbatim>\<open>split_between_processes\<close> is a library
  call, not part of the sources. The spec has it partition the dataset across the
  parallel workers, with padding so that shard sizes are equal: a worker gets a contiguous
  slice, the first \<open>len mod num_processes\<close> workers one row more, and a shorter shard
  is padded by repeating its last row. A single process keeps the whole dataset. The
  columns of a dict are split one by one.
\<close>

definition padded_shard :: "nat \<Rightarrow> nat \<Rightarrow> 'a list \<Rightarrow> 'a list" where
  "padded_shard num_processes process_index inputs =
     (if num_processes = 1 \<or> inputs = [] then inputs
      else
        let len = length inputs;
            per = len div num_processes;
            extras = len mod num_processes;
            start_index = process_index * per + min process_index extras;
            end_index = start_index + per + (if process_index < extras then 1 else 0);
            result = (if len \<le> start_index then [last inputs]
                      else take (end_index - start_index) (drop start_index inputs))
        in result @ replicate (per + (if 0 < extras then 1 else 0) - length result) (last result))"

definition padded_columns :: "nat \<Rightarrow> nat \<Rightarrow> columns \<Rightarrow> columns" where
  "padded_columns num_processes process_index cols =
     \<lparr>prompt_column = map_option (padded_shard num_processes process_index) (prompt_column cols),
      chosen_column = map_option (padded_shard num_processes process_index) (chosen_column cols),
      other_columns =
        map (\<lambda>n. length (padded_shard num_processes process_index (replicate n ())))
          (other_columns cols)\<rparr>"

text \<open>
  A tokenizer with one token per turn and a final generation-prompt token, a model
  (numbered by its training step) that continues the prompt with two tokens, and a judge
  that prefers the policy on short prompts.
\<close>

definition example_tokenizer :: tokenizer where
  "example_tokenizer =
     \<lparr>apply_chat_template = (\<lambda>messages. map (\<lambda>t. length (content t)) messages @ [0]),
      batch_decode = map (\<lambda>n. if n = 0 then CHR ''r'' else CHR ''p'')\<rparr>"

definition example_kwargs :: "string \<rightharpoonup> tokenizer" where
  "example_kwargs = [''tokenizer'' \<mapsto> example_tokenizer]"

definition example_env :: "nat \<Rightarrow> nat \<Rightarrow> judged_row list \<Rightarrow> bool \<Rightarrow> (nat, unit) env" where
  "example_env num_processes process_index other_rows wandb =
     \<lparr>split_rows = padded_shard num_processes process_index,
      split_columns = padded_columns num_processes process_index,
      is_main_process = (process_index = 0),
      gather_object = (\<lambda>rows. rows @ other_rows),
      unwrap_model_for_generation = (\<lambda>m. m),
      generate = (\<lambda>m g tokenized_prompt. tokenized_prompt @ [m, length tokenized_prompt]),
      judge_batch = (\<lambda>prompts completions. map (\<lambda>p. if length p < 3 then 0 else 1) prompts),
      is_wandb_available = wandb\<rparr>"

text \<open>A single process, and the first of two processes (the main one).\<close>

definition one_process :: "bool \<Rightarrow> (nat, unit) env" where
  "one_process wandb = example_env 1 0 [] wandb"

definition first_of_two :: "judged_row list \<Rightarrow> (nat, unit) env" where
  "first_of_two other_rows = example_env 2 0 other_rows False"

text \<open>Two prompts as the rows of a \<^verbatim>\<open>Dataset\<close>, and three prompts as a dict of columns.\<close>

definition example_dataset :: "prompt_row list" where
  "example_dataset =
     [\<lparr>prompt = ''hi'',
       chosen = [\<lparr>role = ''user'', content = ''hi''\<rparr>,
                 \<lparr>role = ''assistant'', content = ''hello''\<rparr>]\<rparr>,
      \<lparr>prompt = ''2+2?'',
       chosen = [\<lparr>role = ''user'', content = ''2+2?''\<rparr>]\<rparr>]"

definition example_columns :: columns where
  "example_columns =
     \<lparr>prompt_column = Some [''hi'', ''2+2?'', ''bye''],
      chosen_column =
        Some [[\<lparr>role = ''user'', content = ''hi''\<rparr>,
               \<lparr>role = ''assistant'', content = ''hello''\<rparr>],
              [\<lparr>role = ''user'', content = ''2+2?''\<rparr>],
              [\<lparr>role = ''user'', content = ''bye''\<rparr>]],
      other_columns = []\<rparr>"

text \<open>The callback as \<^verbatim>\<open>__init__\<close> leaves it, on a model at step \<open>0\<close> in train mode.\<close>

definition example_callback :: "prompt_data \<Rightarrow> (nat, unit) callback" where
  "example_callback dataset = init dataset () 0 True []"

text \<open>
  A callback on the dict of columns that holds a reference completion for each of the
  three prompts, with the model at step \<open>5\<close>.
\<close>

definition example_trained :: "(nat, unit) callback" where
  "example_trained =
     (example_callback (Dict example_columns))
       \<lparr>ref_completions := [''rp'', ''rp'', ''rp''], model_wrapped := 5\<rparr>"

section \<open>Properties\<close>

subsection \<open>Indexing, slicing and one generation\<close>

lemma py_getitem_last: "xs \<noteq> [] \<Longrightarrow> py_getitem xs (- 1) = Inr (last xs)"
proof -
  assume ne: "xs \<noteq> []"
  then have "0 < length xs" by simp
  then have n: "nat (int (length xs) - 1) = length xs - 1" by simp
  from ne have "last xs = xs ! (length xs - 1)" by (rule last_conv_nth)
  with ne n show ?thesis by (simp add: py_getitem_def Let_def)
qed

lemma py_getitem_empty: "py_getitem [] i = Inl IndexError"
  by (simp add: py_getitem_def)

lemma py_slice_to_butlast: "py_slice_to xs (- 1) = butlast xs"
  by (cases "xs = []") (simp_all add: py_slice_to_def slice_bound_def butlast_conv_take nat_diff_distrib')

lemma generation_input_nonempty:
  "messages \<noteq> [] \<Longrightarrow>
   generation_input messages =
     Inr (if role (last messages) = ''assistant'' then butlast messages else messages)"
  by (simp add: generation_input_def py_getitem_last py_slice_to_butlast)

lemma generation_input_empty: "generation_input [] = Inl IndexError"
  by (simp add: generation_input_def py_getitem_empty)

lemma py_slice_from_drop: "py_slice_from xs (int n) = drop n xs"
  by (simp add: py_slice_from_def slice_bound_def min_def)

lemma completion_tokens_drop:
  "completion_tokens E tok m g messages =
     drop (length (apply_chat_template tok messages))
       (generate E m g (apply_chat_template tok messages))"
  by (simp add: completion_tokens_def Let_def py_slice_from_drop)

lemma generate_completion_nonempty:
  "messages \<noteq> [] \<Longrightarrow>
   generate_completion E tok m g messages =
     Inr (batch_decode tok (completion_tokens E tok m g
            (if role (last messages) = ''assistant'' then butlast messages else messages)))"
  by (simp add: generate_completion_def generation_input_nonempty)

lemma generate_completion_empty: "generate_completion E tok m g [] = Inl IndexError"
  by (simp add: generate_completion_def generation_input_empty)


lemma ref_loop_frame:
  "ref_loop E tok m convs s = (r, s') \<Longrightarrow>
   s' = s\<lparr>ref_completions := ref_completions s'\<rparr> \<and> generation_config s' = generation_config s"
proof (induction convs arbitrary: s)
  case Nil
  then show ?case by auto
next
  case (Cons c convs)
  show ?case
  proof (cases "generate_completion E tok m (generation_config s) c")
    case (Inl e)
    with Cons.prems show ?thesis by auto
  next
    case (Inr t)
    with Cons.prems have "ref_loop E tok m convs (s\<lparr>ref_completions := ref_completions s @ [t]\<rparr>) = (r, s')"
      by simp
    from Cons.IH[OF this] show ?thesis by (cases s, cases s') auto
  qed
qed

lemma ref_loop_Returned:
  "ref_loop E tok m convs s = (Returned, s') \<Longrightarrow>
   \<exists>rs. length rs = length convs \<and> ref_completions s' = ref_completions s @ rs \<and>
        (\<forall>i<length convs. generate_completion E tok m (generation_config s) (convs ! i) = Inr (rs ! i))"
proof (induction convs arbitrary: s)
  case Nil
  then show ?case by auto
next
  case (Cons c convs)
  show ?case
  proof (cases "generate_completion E tok m (generation_config s) c")
    case (Inl e)
    with Cons.prems show ?thesis by auto
  next
    case (Inr t)
    let ?s1 = "s\<lparr>ref_completions := ref_completions s @ [t]\<rparr>"
    from Inr Cons.prems have run: "ref_loop E tok m convs ?s1 = (Returned, s')" by simp
    from Cons.IH[OF run] obtain rs where rs: "length rs = length convs"
      "ref_completions s' = ref_completions ?s1 @ rs"
      "\<forall>i<length convs. generate_completion E tok m (generation_config ?s1) (convs ! i) = Inr (rs ! i)"
      by blast
    have "\<forall>i<length (c # convs). generate_completion E tok m (generation_config s) ((c # convs) ! i) = Inr ((t # rs) ! i)"
    proof (intro allI impI)
      fix i assume "i < length (c # convs)"
      then show "generate_completion E tok m (generation_config s) ((c # convs) ! i) = Inr ((t # rs) ! i)"
        using Inr rs(3) by (cases i) auto
    qed
    with rs(1,2) show ?thesis by (intro exI[of _ "t # rs"]) simp
  qed
qed

lemma ref_loop_total:
  "\<forall>c\<in>set convs. c \<noteq> [] \<Longrightarrow> fst (ref_loop E tok m convs s) = Returned"
proof (induction convs arbitrary: s)
  case Nil
  then show ?case by simp
next
  case (Cons c convs)
  then have "c \<noteq> []" by simp
  with Cons show ?case by (simp add: generate_completion_nonempty)
qed

lemma ref_loop_empty_conversation:
  "[] \<in> set convs \<Longrightarrow> fst (ref_loop E tok m convs s) = Raised IndexError"
proof (induction convs arbitrary: s)
  case Nil
  then show ?case by simp
next
  case (Cons c convs)
  show ?case
  proof (cases "c = []")
    case True
    then show ?thesis by (simp add: generate_completion_empty)
  next
    case False
    with Cons.prems have "[] \<in> set convs" by auto
    from Cons.IH[OF this] False show ?thesis by (simp add: generate_completion_nonempty)
  qed
qed

lemma py_getitem_nat:
  "py_getitem xs (int i) = (if i < length xs then Inr (xs ! i) else Inl IndexError)"
  by (simp add: py_getitem_def Let_def)

lemma py_getitem_error: "py_getitem xs i = Inl e \<Longrightarrow> e = IndexError"
  by (simp add: py_getitem_def Let_def split: if_splits)




lemma eval_loop_empty_conversation:
  "[] \<in> set convs \<Longrightarrow> eval_loop E tok m g refs i batch convs = Inl IndexError"
proof (induction convs arbitrary: i batch)
  case Nil
  then show ?case by simp
next
  case (Cons c rest)
  show ?case
  proof (cases "c = []")
    case True
    then show ?thesis by (simp add: generate_completion_empty)
  next
    case False
    with Cons.prems have "[] \<in> set rest" by auto
    with Cons.IH False show ?thesis
      by (simp add: generate_completion_nonempty py_getitem_nat)
  qed
qed

subsection \<open>The win rate\<close>

lemma sum_list_indicator:
  "sum_list (map (\<lambda>r. if P r then 1 else 0) rs) = int (length (filter P rs))"
  by (induction rs) simp_all

lemma win_rate_nonempty:
  "results \<noteq> [] \<Longrightarrow>
   win_rate results = Inr (of_nat (length (filter (\<lambda>r. r = 0) results)) / of_nat (length results))"
  by (simp add: win_rate_def sum_list_indicator)

lemma win_rate_bounds:
  assumes "win_rate results = Inr w" shows "0 \<le> w \<and> w \<le> 1"
proof -
  from assms have ne: "results \<noteq> []" by (auto simp: win_rate_def Let_def split: if_splits)
  with assms have w: "w = of_nat (length (filter (\<lambda>r. r = 0) results)) / of_nat (length results)"
    by (simp add: win_rate_nonempty)
  have "length (filter (\<lambda>r. r = 0) results) \<le> length results" by simp
  then have "(of_nat (length (filter (\<lambda>r. r = 0) results)) :: rat) \<le> of_nat (length results)"
    by (simp only: of_nat_le_iff)
  moreover from ne have "(0::rat) < of_nat (length results)" by simp
  ultimately show ?thesis unfolding w by (simp add: divide_le_eq_1)
qed

lemma win_rate_all_policy:
  "results \<noteq> [] \<Longrightarrow> \<forall>r\<in>set results. r = 0 \<Longrightarrow> win_rate results = Inr 1"
  by (simp add: win_rate_nonempty filter_id_conv[THEN iffD2])

lemma win_rate_all_ref:
  "results \<noteq> [] \<Longrightarrow> \<forall>r\<in>set results. r = 1 \<Longrightarrow> win_rate results = Inr 0"
proof -
  assume ne: "results \<noteq> []" and a: "\<forall>r\<in>set results. r = 1"
  then have "filter (\<lambda>r. r = 0) results = []" by (auto simp: filter_empty_conv)
  with ne show ?thesis by (simp add: win_rate_nonempty)
qed

subsection \<open>Selecting rows and truncating\<close>

lemma list_comp_map:
  "\<forall>x\<in>set xs. f x = Inr (g x) \<Longrightarrow> list_comp f xs = Inr (map g xs)"
  by (induction xs) simp_all

lemma list_comp_Inl:
  "list_comp f xs = Inl e \<Longrightarrow> \<exists>x\<in>set xs. f x = Inl e"
  by (induction xs) (auto split: sum.splits)

lemma list_comp_raises:
  "x \<in> set xs \<Longrightarrow> f x = Inl e \<Longrightarrow> \<exists>e'. list_comp f xs = Inl e'"
  by (induction xs) (auto split: sum.splits)

lemma list_comp_range:
  "list_comp (\<lambda>i. py_getitem rows (int i)) [0..<n] =
     (if n \<le> length rows then Inr (take n rows) else Inl IndexError)"
proof (cases "n \<le> length rows")
  case True
  then have "\<forall>i\<in>set [0..<n]. py_getitem rows (int i) = Inr (rows ! i)"
    by (simp add: py_getitem_nat)
  then have "list_comp (\<lambda>i. py_getitem rows (int i)) [0..<n] = Inr (map ((!) rows) [0..<n])"
    by (rule list_comp_map)
  also from True have "map ((!) rows) [0..<n] = take n rows"
    by (intro nth_equalityI) simp_all
  finally show ?thesis using True by simp
next
  case False
  then have "length rows \<in> set [0..<n]" and "py_getitem rows (int (length rows)) = Inl IndexError"
    by (simp_all add: py_getitem_nat)
  then obtain e where e: "list_comp (\<lambda>i. py_getitem rows (int i)) [0..<n] = Inl e"
    using list_comp_raises[of "length rows" "[0..<n]" "\<lambda>i. py_getitem rows (int i)" IndexError]
    by blast
  then obtain i where "py_getitem rows (int i) = Inl e"
    using list_comp_Inl[of "\<lambda>i. py_getitem rows (int i)" "[0..<n]" e] by blast
  then have "e = IndexError" by (rule py_getitem_error)
  with e False show ?thesis by simp
qed

lemma select_empty: "select (Some []) indices = Inr (Some [])"
  by (simp add: select_def)

lemma select_rows:
  "rows \<noteq> [] \<Longrightarrow>
   select (Some rows) indices =
     (case list_comp (\<lambda>i. py_getitem rows (int i)) indices of
        Inl e \<Rightarrow> Inl e | Inr picked \<Rightarrow> Inr (Some picked))"
  by (cases rows) (simp_all add: select_def)


lemma select_again:
  assumes "n \<le> length rows"
  shows "select (Some (take n rows)) [0..<n] = Inr (Some (take n rows))"
proof (cases "take n rows = []")
  case True
  show ?thesis unfolding True by (rule select_empty)
next
  case False
  from assms have "list_comp (\<lambda>i. py_getitem (take n rows) (int i)) [0..<n]
                     = Inr (take n (take n rows))"
    by (simp add: list_comp_range)
  then show ?thesis by (simp add: select_rows[OF False])
qed






subsection \<open>on_train_begin\<close>


lemma on_train_begin_Dict:
  "kwargs ''tokenizer'' = Some tok \<Longrightarrow> prompt_dataset s = Dict cols \<Longrightarrow>
   on_train_begin E kwargs s = (Raised KeyError, s\<lparr>prompt_dataset := Dict (split_columns E cols)\<rparr>)"
  by (simp add: on_train_begin_def)

lemma on_train_begin_Dataset:
  assumes "kwargs ''tokenizer'' = Some tok" and "prompt_dataset s = Dataset rows"
  shows "on_train_begin E kwargs s =
     (case py_getitem (split_rows E rows) 0 of
        Inl e \<Rightarrow> (Raised e, s)
      | Inr first_row \<Rightarrow>
          (case ref_loop E tok (unwrap_model_for_generation E (model_wrapped s))
                  (map chosen (split_rows E rows)) (s\<lparr>training := False\<rparr>) of
             (Raised e, s2) \<Rightarrow> (Raised e, s2)
           | (Returned, s2) \<Rightarrow> (Returned, s2\<lparr>training := True\<rparr>)))"
  using assms by (cases s) (simp add: on_train_begin_def split: sum.splits)

lemma on_train_begin_Returned:
  assumes tok: "kwargs ''tokenizer'' = Some tok"
    and run: "on_train_begin E kwargs s = (Returned, s')"
  shows "\<exists>rows rs. prompt_dataset s = Dataset rows \<and>
           length rs = length (split_rows E rows) \<and>
           s' = s\<lparr>ref_completions := ref_completions s @ rs, training := True\<rparr> \<and>
           (\<forall>i<length (split_rows E rows).
              generate_completion E tok (unwrap_model_for_generation E (model_wrapped s))
                (generation_config s) (chosen (split_rows E rows ! i))
              = Inr (rs ! i))"
proof (cases "prompt_dataset s")
  case (Dict cols)
  with tok run show ?thesis by (simp add: on_train_begin_Dict)
next
  case (Dataset rows)
  let ?shard = "split_rows E rows"
  let ?m = "unwrap_model_for_generation E (model_wrapped s)"
  let ?s1 = "s\<lparr>training := False\<rparr>"
  obtain r s2 where loop: "ref_loop E tok ?m (map chosen ?shard) ?s1 = (r, s2)"
    by (cases "ref_loop E tok ?m (map chosen ?shard) ?s1")
  with run have r: "r = Returned" and s': "s' = s2\<lparr>training := True\<rparr>"
    by (auto simp: on_train_begin_Dataset[of kwargs tok s rows E, OF tok Dataset] split: sum.splits outcome.splits)
  from ref_loop_Returned[OF loop[unfolded r]] obtain rs where rs:
    "length rs = length ?shard" "ref_completions s2 = ref_completions s @ rs"
    "\<forall>i<length ?shard. generate_completion E tok ?m (generation_config s) (chosen (?shard ! i)) = Inr (rs ! i)"
    by auto
  from ref_loop_frame[OF loop] have "s2 = ?s1\<lparr>ref_completions := ref_completions s2\<rparr>" by simp
  with s' rs(2) have "s' = s\<lparr>ref_completions := ref_completions s @ rs, training := True\<rparr>"
    by (cases s) simp
  with rs(1,3) Dataset show ?thesis by blast
qed

lemma on_train_begin_total:
  assumes tok: "kwargs ''tokenizer'' = Some tok" and data: "prompt_dataset s = Dataset rows"
    and shard: "split_rows E rows \<noteq> []"
    and convs: "\<forall>r\<in>set (split_rows E rows). chosen r \<noteq> []"
  shows "fst (on_train_begin E kwargs s) = Returned"
proof -
  let ?shard = "split_rows E rows"
  let ?m = "unwrap_model_for_generation E (model_wrapped s)"
  let ?s1 = "s\<lparr>training := False\<rparr>"
  from shard have first: "py_getitem ?shard 0 = Inr (?shard ! 0)"
    using py_getitem_nat[of ?shard 0] by simp
  from convs have "\<forall>c\<in>set (map chosen ?shard). c \<noteq> []" by simp
  then have "fst (ref_loop E tok ?m (map chosen ?shard) ?s1) = Returned" by (rule ref_loop_total)
  with first show ?thesis
    by (cases "ref_loop E tok ?m (map chosen ?shard) ?s1")
       (simp add: on_train_begin_Dataset[of kwargs tok s rows E, OF tok data])
qed

lemma on_train_begin_empty_conversation:
  assumes tok: "kwargs ''tokenizer'' = Some tok" and data: "prompt_dataset s = Dataset rows"
    and bad: "[] \<in> set (map chosen (split_rows E rows))"
  shows "fst (on_train_begin E kwargs s) = Raised IndexError"
proof -
  let ?shard = "split_rows E rows"
  let ?m = "unwrap_model_for_generation E (model_wrapped s)"
  let ?s1 = "s\<lparr>training := False\<rparr>"
  from bad have "?shard \<noteq> []" by auto
  then have first: "py_getitem ?shard 0 = Inr (?shard ! 0)"
    using py_getitem_nat[of ?shard 0] by simp
  from bad have "fst (ref_loop E tok ?m (map chosen ?shard) ?s1) = Raised IndexError"
    by (rule ref_loop_empty_conversation)
  with first show ?thesis
    by (cases "ref_loop E tok ?m (map chosen ?shard) ?s1")
       (simp add: on_train_begin_Dataset[of kwargs tok s rows E, OF tok data])
qed




subsection \<open>This process's judged rows\<close>



lemma local_results_Dataset:
  "prompt_dataset s = Dataset rows \<Longrightarrow> local_results E tok s = (Inl AttributeError, s)"
  by (cases s) (simp add: local_results_def)

text \<open>On a dict of columns that becomes a \<^verbatim>\<open>Dataset\<close> with both columns, the loop runs.\<close>

lemma local_results_Dict:
  assumes "prompt_dataset s = Dict cols"
    and "dataset_from_dict (Dict (split_columns E cols)) = Inr (split_columns E cols)"
    and "prompt_column (split_columns E cols) = Some ps"
    and "chosen_column (split_columns E cols) = Some convs"
  shows "local_results E tok s =
     (case eval_loop E tok (unwrap_model_for_generation E (model_wrapped s)) (generation_config s)
             (ref_completions s) 0 [] convs of
        Inl e \<Rightarrow> (Inl e, s\<lparr>prompt_dataset := Dict (split_columns E cols), training := False\<rparr>)
      | Inr batch_completions \<Rightarrow>
          (from_dict (judge_batch E ps batch_completions) ps batch_completions,
           s\<lparr>prompt_dataset := Dict (split_columns E cols), training := True\<rparr>))"
  using assms
  by (simp add: local_results_def local_dataset_prompt_def local_dataset_chosen_def Let_def
        split: sum.splits)


lemma dataset_from_dict_Inl:
  "dataset_from_dict d = Inl e \<Longrightarrow> e = AttributeError \<or> e = ArrowInvalid"
  by (cases d) (simp_all split: if_splits)


lemma local_results_state:
  "snd (local_results E tok s) =
     s\<lparr>prompt_dataset := after_split E (prompt_dataset s),
       training := training (snd (local_results E tok s))\<rparr>"
proof (cases "prompt_dataset s")
  case (Dataset rs)
  then show ?thesis by (cases s) (simp add: local_results_Dataset)
next
  case (Dict cols)
  then show ?thesis
    by (cases s) (simp add: local_results_def Let_def split: sum.splits)
qed




lemma local_results_empty_conversation:
  assumes d: "prompt_dataset s = Dict cols"
    and fd: "dataset_from_dict (Dict (split_columns E cols)) = Inr (split_columns E cols)"
    and ps: "prompt_column (split_columns E cols) = Some ps"
    and convs: "chosen_column (split_columns E cols) = Some convs"
    and bad: "[] \<in> set convs"
  shows "local_results E tok s =
           (Inl IndexError, s\<lparr>prompt_dataset := Dict (split_columns E cols), training := False\<rparr>)"
  using bad by (simp add: local_results_Dict[OF d fd ps convs] eval_loop_empty_conversation)


subsection \<open>The main process's part\<close>

lemma winrate_generations_rows:
  "winrate_generations (map row_prompts ds) (map f (map row_completions ds))
     (map g (map row_completions ds)) (map row_results ds) =
   LogTable [''Prompt'', ''Policy'', ''Ref Model'', ''Chosen index'']
     (map (\<lambda>r. [Str (row_prompts r), Str (f (row_completions r)), Str (g (row_completions r)),
                  Num (row_results r)]) ds)"
  by (simp add: winrate_generations_def zip_map_map zip_same_conv_map)

lemma list_comp_getitem_error:
  "list_comp (\<lambda>c. py_getitem c k) cs = Inl e \<Longrightarrow> e = IndexError"
  using list_comp_Inl[of "\<lambda>c. py_getitem c k" cs e] py_getitem_error by blast

lemma pop_log_history_if:
  "pop_log_history s =
     (if log_history s = [] then (Raised IndexError, s)
      else (Returned, s\<lparr>log_history := butlast (log_history s)\<rparr>))"
  by (cases "log_history s") (simp_all add: pop_log_history_def)

lemma pop_after_log:
  "pop_log_history (trainer_log logs s) =
     (Returned, s\<lparr>reported := reported s @ [logs]\<rparr>)"
  by (cases s) (simp add: pop_log_history_if trainer_log_def)

lemma aggregate_Inl:
  "truncated_win_rate (py_len (prompt_dataset s)) rows = Inl e \<Longrightarrow>
   aggregate E global_step rows s = (Raised e, s)"
  by (simp add: aggregate_def)

lemma aggregate_no_wandb:
  "truncated_win_rate (py_len (prompt_dataset s)) rows = Inr (ds, w) \<Longrightarrow>
   \<not> is_wandb_available E \<Longrightarrow>
   aggregate E global_step rows s = (Returned, trainer_log [(''win_rate'', LogFloat w)] s)"
  by (simp add: aggregate_def)

lemma py_getitem_pair:
  "2 \<le> length c \<Longrightarrow> py_getitem c 0 = Inr (c ! 0) \<and> py_getitem c 1 = Inr (c ! 1)"
  by (cases c) (auto simp: py_getitem_def Let_def)

lemma py_getitem_short: "length c < 2 \<Longrightarrow> py_getitem c 1 = Inl IndexError"
  by (simp add: py_getitem_def Let_def)

lemma aggregate_wandb:
  assumes "truncated_win_rate (py_len (prompt_dataset s)) rows = Inr (ds, w)"
    and "is_wandb_available E"
  shows "aggregate E global_step rows s =
     (let s2 = wandb_log [(''eval_win_rate'', LogFloat w), (''train/global_step'', LogInt global_step)]
                 (trainer_log [(''win_rate'', LogFloat w)] s)
      in if \<forall>r\<in>set ds. 2 \<le> length (row_completions r)
         then (Returned, s2\<lparr>reported := reported s2 @
                 [[(''winrate_generations'',
                    LogTable [''Prompt'', ''Policy'', ''Ref Model'', ''Chosen index'']
                      (map (\<lambda>r. [Str (row_prompts r), Str (row_completions r ! 0),
                                   Str (row_completions r ! 1), Num (row_results r)]) ds))]]\<rparr>)
         else (Raised IndexError, s2))"
proof (cases "\<forall>r\<in>set ds. 2 \<le> length (row_completions r)")
  case True
  then have "\<forall>c\<in>set (map row_completions ds). py_getitem c 0 = Inr (c ! 0)"
    and "\<forall>c\<in>set (map row_completions ds). py_getitem c 1 = Inr (c ! 1)"
    by (simp_all add: py_getitem_pair)
  then have "list_comp (\<lambda>c. py_getitem c 0) (map row_completions ds)
               = Inr (map (\<lambda>c. c ! 0) (map row_completions ds))"
    and "list_comp (\<lambda>c. py_getitem c 1) (map row_completions ds)
               = Inr (map (\<lambda>c. c ! 1) (map row_completions ds))"
    using list_comp_map[of "map row_completions ds" "\<lambda>c. py_getitem c 0" "\<lambda>c. c ! 0"]
      list_comp_map[of "map row_completions ds" "\<lambda>c. py_getitem c 1" "\<lambda>c. c ! 1"]
    by simp_all
  with assms True show ?thesis
    by (simp add: aggregate_def Let_def winrate_generations_rows pop_after_log del: map_map)
next
  case False
  then obtain r where r: "r \<in> set ds" "length (row_completions r) < 2" by auto
  show ?thesis
  proof (cases "list_comp (\<lambda>c. py_getitem c 0) (map row_completions ds)")
    case (Inl e)
    then have "e = IndexError" by (rule list_comp_getitem_error)
    with Inl assms False show ?thesis by (simp add: aggregate_def Let_def)
  next
    case (Inr policy)
    from r have "row_completions r \<in> set (map row_completions ds)"
      and "py_getitem (row_completions r) 1 = Inl IndexError"
      by (simp_all add: py_getitem_short)
    then obtain e where e: "list_comp (\<lambda>c. py_getitem c 1) (map row_completions ds) = Inl e"
      using list_comp_raises[of "row_completions r" "map row_completions ds"
              "\<lambda>c. py_getitem c 1" IndexError] by blast
    then have "e = IndexError" by (rule list_comp_getitem_error)
    with e Inr assms False show ?thesis by (simp add: aggregate_def Let_def)
  qed
qed

lemma aggregate_frame:
  "ref_completions (snd (aggregate E global_step rows s)) = ref_completions s \<and>
   prompt_dataset (snd (aggregate E global_step rows s)) = prompt_dataset s"
proof (cases "truncated_win_rate (py_len (prompt_dataset s)) rows")
  case (Inl e)
  then show ?thesis by (simp add: aggregate_Inl)
next
  case (Inr p)
  obtain ds w where p: "p = (ds, w)" by (cases p)
  show ?thesis
  proof (cases "is_wandb_available E")
    case True
    from aggregate_wandb[OF Inr[unfolded p] True, of global_step] show ?thesis
      by (simp add: Let_def trainer_log_def wandb_log_def)
  next
    case False
    from aggregate_no_wandb[OF Inr[unfolded p] False, of global_step] show ?thesis
      by (simp add: trainer_log_def)
  qed
qed



subsection \<open>on_evaluate\<close>

lemma on_evaluate_no_tokenizer:
  "kwargs ''tokenizer'' = None \<Longrightarrow> on_evaluate E global_step kwargs s = (Raised KeyError, s)"
  by (simp add: on_evaluate_def)

lemma on_evaluate_Dataset:
  "kwargs ''tokenizer'' = Some tok \<Longrightarrow> prompt_dataset s = Dataset rows \<Longrightarrow>
   on_evaluate E global_step kwargs s = (Raised AttributeError, s)"
  by (simp add: on_evaluate_def local_results_Dataset)

lemma on_evaluate_state:
  assumes "kwargs ''tokenizer'' = Some tok"
  shows "ref_completions (snd (on_evaluate E global_step kwargs s)) = ref_completions s \<and>
         prompt_dataset (snd (on_evaluate E global_step kwargs s))
           = after_split E (prompt_dataset s)"
proof -
  obtain r s2 where local: "local_results E tok s = (r, s2)" by (cases "local_results E tok s")
  from local_results_state[of E tok s] local
  have "s2 = s\<lparr>prompt_dataset := after_split E (prompt_dataset s), training := training s2\<rparr>"
    by simp
  then have s2: "ref_completions s2 = ref_completions s"
    "prompt_dataset s2 = after_split E (prompt_dataset s)"
    by (cases s, cases s2, simp)+
  show ?thesis
  proof (cases r)
    case (Inl e)
    with assms local s2 show ?thesis by (simp add: on_evaluate_def)
  next
    case (Inr rows)
    with assms local s2 aggregate_frame[of E global_step "gather_object E rows" s2]
    show ?thesis by (simp add: on_evaluate_def Let_def)
  qed
qed

lemma on_evaluate_ref_completions:
  "ref_completions (snd (on_evaluate E global_step kwargs s)) = ref_completions s"
  by (cases "kwargs ''tokenizer''") (simp_all add: on_evaluate_no_tokenizer on_evaluate_state)



subsection \<open>The example run, evaluated\<close>

lemmas example_defs =
  one_process_def first_of_two_def example_env_def example_kwargs_def example_callback_def
  example_dataset_def example_columns_def example_tokenizer_def init_def padded_shard_def
  padded_columns_def example_trained_def

lemmas hook_defs =
  on_train_begin_def on_evaluate_def local_results_def aggregate_def truncated_win_rate_def
  select_def from_list_def results_column_def rows_of_def column_lengths_def
  local_dataset_prompt_def local_dataset_chosen_def win_rate_def from_dict_def
  winrate_generations_def pop_log_history_def trainer_log_def wandb_log_def
  generate_completion_def generation_input_def completion_tokens_def py_getitem_def
  py_slice_to_def py_slice_from_def slice_bound_def Let_def

lemma example_on_train_begin_two_processes:
  "on_train_begin (first_of_two other) example_kwargs (example_callback (Dataset example_dataset)) =
     (Returned, (example_callback (Dataset example_dataset))\<lparr>ref_completions := [''rp'']\<rparr>)"
  by (simp add: example_defs hook_defs)

lemma example_on_train_begin_one_process:
  "on_train_begin (one_process wandb) example_kwargs (example_callback (Dataset example_dataset)) =
     (Returned, (example_callback (Dataset example_dataset))\<lparr>ref_completions := [''rp'', ''rp'']\<rparr>)"
  by (simp add: example_defs hook_defs)

lemma example_on_train_begin_empty:
  "on_train_begin (one_process False) example_kwargs (example_callback (Dataset [])) =
     (Raised IndexError, example_callback (Dataset []))"
  by (simp add: example_defs hook_defs)

lemma example_local_results:
  "local_results (one_process wandb) example_tokenizer example_trained =
     (Inr [\<lparr>row_results = 0, row_prompts = ''hi'', row_completions = [''pp'', ''rp'']\<rparr>,
           \<lparr>row_results = 1, row_prompts = ''2+2?'', row_completions = [''pp'', ''rp'']\<rparr>,
           \<lparr>row_results = 1, row_prompts = ''bye'', row_completions = [''pp'', ''rp'']\<rparr>],
      example_trained)"
  by (simp add: example_defs hook_defs)


lemma example_on_evaluate_no_wandb:
  "on_evaluate (one_process False) 7 example_kwargs example_trained =
     (Returned,
      example_trained
        \<lparr>log_history := [[(''win_rate'', LogFloat (1 / 2))]],
         reported := [[(''win_rate'', LogFloat (1 / 2))]]\<rparr>)"
  by (simp add: example_defs hook_defs)



lemma example_empty_conversation_on_train_begin:
  "on_train_begin (one_process False) example_kwargs
     (example_callback (Dataset [\<lparr>prompt = ''hi'', chosen = []\<rparr>])) =
     (Raised IndexError,
      (example_callback (Dataset [\<lparr>prompt = ''hi'', chosen = []\<rparr>]))\<lparr>training := False\<rparr>)"
  by (simp add: example_defs hook_defs)

text \<open>
  Four processes on five prompts: the padding rows are interleaved with the shards, so the
  first five gathered rows are not the five prompts.
\<close>

lemma padding_interleaved:
  "concat (map (\<lambda>p. padded_shard 4 p [0, 1, 2, 3, 4 :: nat]) [0, 1, 2, 3])
     = [0, 1, 2, 2, 3, 3, 4, 4]"
  by (simp add: padded_shard_def)

section \<open>The claims\<close>

text \<open>
  C1: for every non-empty list of judgments the win rate of \<^verbatim>\<open>on_evaluate\<close> is the
  number of judgments equal to \<open>0\<close> (the policy was preferred) divided by the number of
  judgments; so it lies between \<open>0\<close> and \<open>1\<close>, it is \<open>1\<close> when every judgment is
  \<open>0\<close> and it is \<open>0\<close> when every judgment is \<open>1\<close>.
\<close>

theorem win_rate_fraction:
  assumes "results \<noteq> []"
  shows "win_rate results =
           Inr (of_nat (length (filter (\<lambda>r. r = 0) results)) / of_nat (length results))
         \<and> (\<exists>w. win_rate results = Inr w \<and> 0 \<le> w \<and> w \<le> 1)
         \<and> ((\<forall>r\<in>set results. r = 0) \<longrightarrow> win_rate results = Inr 1)
         \<and> ((\<forall>r\<in>set results. r = 1) \<longrightarrow> win_rate results = Inr 0)"
  using assms win_rate_nonempty[OF assms] win_rate_bounds win_rate_all_policy win_rate_all_ref
  by blast

theorem win_rate_fraction_witness:
  "win_rate [0, 1] = Inr (1 / 2) \<and> win_rate [0, 0, 0] = Inr 1 \<and> win_rate [1, 1] = Inr 0"
  using win_rate_fraction[of "[0, 1]"] win_rate_fraction[of "[0, 0, 0]"]
    win_rate_fraction[of "[1, 1]"]
  by simp

text \<open>
  C2, as stated: after \<^verbatim>\<open>on_train_begin\<close> the reference list is as long as the prompt
  dataset. With two processes and a dataset of two prompts, process \<open>0\<close> returns with one
  reference completion.
\<close>

theorem ref_completions_length_counterexample:
  "fst (on_train_begin (first_of_two []) example_kwargs (example_callback (Dataset example_dataset)))
     = Returned
   \<and> length (ref_completions (snd (on_train_begin (first_of_two []) example_kwargs
                 (example_callback (Dataset example_dataset))))) = 1
   \<and> py_len (prompt_dataset (snd (on_train_begin (first_of_two []) example_kwargs
                 (example_callback (Dataset example_dataset))))) = 2"
  by (simp add: example_on_train_begin_two_processes) (simp add: example_defs)

text \<open>
  C2, amended: when \<^verbatim>\<open>on_train_begin\<close> returns on a callback whose reference list was
  empty, the prompts are a \<^verbatim>\<open>Dataset\<close>, the list is as long as this process's shard of
  it and its entry \<open>i\<close> is the completion generated for the shard's prompt \<open>i\<close>; it is as
  long as the prompt dataset when the shard is the whole dataset, as on a single process.
  The dataset is unchanged, and \<^verbatim>\<open>on_evaluate\<close> changes neither the list nor the dataset.
\<close>

theorem ref_completions_shard_aligned:
  assumes "kwargs ''tokenizer'' = Some tok" and "ref_completions s = []"
    and "on_train_begin E kwargs s = (Returned, s')"
  shows "\<exists>rows. prompt_dataset s = Dataset rows
         \<and> length (ref_completions s') = length (split_rows E rows)
         \<and> (\<forall>i<length (split_rows E rows).
               generate_completion E tok (unwrap_model_for_generation E (model_wrapped s))
                 (generation_config s) (chosen (split_rows E rows ! i))
               = Inr (ref_completions s' ! i))
         \<and> prompt_dataset s' = prompt_dataset s
         \<and> (split_rows E rows = rows \<longrightarrow> length (ref_completions s') = py_len (prompt_dataset s'))
         \<and> ref_completions (snd (on_evaluate E' global_step kwargs' s')) = ref_completions s'
         \<and> prompt_dataset (snd (on_evaluate E' global_step kwargs' s')) = prompt_dataset s'"
proof -
  from on_train_begin_Returned[OF assms(1,3)] obtain rows rs where
    d: "prompt_dataset s = Dataset rows"
    and rs: "length rs = length (split_rows E rows)"
      "s' = s\<lparr>ref_completions := ref_completions s @ rs, training := True\<rparr>"
      "\<forall>i<length (split_rows E rows).
          generate_completion E tok (unwrap_model_for_generation E (model_wrapped s))
            (generation_config s) (chosen (split_rows E rows ! i))
          = Inr (rs ! i)"
    by blast
  from rs(2) assms(2) have refs: "ref_completions s' = rs" and ds: "prompt_dataset s' = prompt_dataset s"
    by simp_all
  have keep: "prompt_dataset (snd (on_evaluate E' global_step kwargs' s')) = prompt_dataset s'"
  proof (cases "kwargs' ''tokenizer''")
    case None
    then show ?thesis by (simp add: on_evaluate_no_tokenizer)
  next
    case (Some tok')
    from ds d have "prompt_dataset s' = Dataset rows" by simp
    with Some show ?thesis by (simp add: on_evaluate_Dataset)
  qed
  from refs rs(1,3) ds d keep on_evaluate_ref_completions[of E' global_step kwargs' s']
  show ?thesis by simp
qed

theorem ref_completions_shard_aligned_witness:
  "length (ref_completions (snd (on_train_begin (first_of_two []) example_kwargs
             (example_callback (Dataset example_dataset))))) = 1
   \<and> length (split_rows (first_of_two []) example_dataset) = 1
   \<and> length (ref_completions (snd (on_train_begin (one_process False) example_kwargs
             (example_callback (Dataset example_dataset))))) = length example_dataset"
proof -
  let ?cb = "example_callback (Dataset example_dataset)"
  have k: "example_kwargs ''tokenizer'' = Some example_tokenizer" by (simp add: example_kwargs_def)
  have e: "ref_completions ?cb = []" by (simp add: example_callback_def init_def)
  have d: "prompt_dataset ?cb = Dataset example_dataset" by (simp add: example_callback_def init_def)
  have one: "split_rows (one_process False) example_dataset = example_dataset"
    by (simp add: one_process_def example_env_def padded_shard_def)
  have two: "length (split_rows (first_of_two []) example_dataset) = 1"
    by (simp add: first_of_two_def example_env_def padded_shard_def example_dataset_def)
  have run2: "on_train_begin (first_of_two []) example_kwargs ?cb =
      (Returned, snd (on_train_begin (first_of_two []) example_kwargs ?cb))"
    by (simp only: example_on_train_begin_two_processes snd_conv)
  have run1: "on_train_begin (one_process False) example_kwargs ?cb =
      (Returned, snd (on_train_begin (one_process False) example_kwargs ?cb))"
    by (simp only: example_on_train_begin_one_process snd_conv)
  from ref_completions_shard_aligned[OF k e run2] d
  have "length (ref_completions (snd (on_train_begin (first_of_two []) example_kwargs ?cb)))
          = length (split_rows (first_of_two []) example_dataset)"
    by auto
  with two
  have a: "length (ref_completions (snd (on_train_begin (first_of_two []) example_kwargs ?cb))) = 1"
    by simp
  from ref_completions_shard_aligned[OF k e run1] d
  have "split_rows (one_process False) example_dataset = example_dataset
          \<longrightarrow> length (ref_completions (snd (on_train_begin (one_process False) example_kwargs ?cb)))
              = py_len (prompt_dataset (snd (on_train_begin (one_process False) example_kwargs ?cb)))"
    and "prompt_dataset (snd (on_train_begin (one_process False) example_kwargs ?cb))
           = prompt_dataset ?cb"
    by auto
  with one d
  have b: "length (ref_completions (snd (on_train_begin (one_process False) example_kwargs ?cb)))
             = length example_dataset"
    by simp
  from a two b show ?thesis by blast
qed



text \<open>
  C4: for a conversation with a final turn, the input of chat-template tokenization and
  of generation is the conversation without that turn when its role is
  \<^verbatim>\<open>"assistant"\<close>, and the whole conversation otherwise. Both loops generate through
  \<open>generate_completion\<close>. (A conversation without turns has no final turn: C10.)
\<close>

theorem trailing_assistant_removed:
  assumes "messages \<noteq> []"
  shows "generation_input messages =
           Inr (if role (last messages) = ''assistant'' then butlast messages else messages)
         \<and> generate_completion E tok m g messages =
           Inr (batch_decode tok
                  (drop (length (apply_chat_template tok
                           (if role (last messages) = ''assistant'' then butlast messages
                            else messages)))
                     (generate E m g
                        (apply_chat_template tok
                           (if role (last messages) = ''assistant'' then butlast messages
                            else messages)))))"
  using assms
  by (simp add: generation_input_nonempty generate_completion_nonempty completion_tokens_drop)

theorem trailing_assistant_removed_witness:
  "generation_input [\<lparr>role = ''user'', content = ''hi''\<rparr>, \<lparr>role = ''assistant'', content = ''hello''\<rparr>]
     = Inr [\<lparr>role = ''user'', content = ''hi''\<rparr>]
   \<and> generation_input [\<lparr>role = ''user'', content = ''2+2?''\<rparr>]
     = Inr [\<lparr>role = ''user'', content = ''2+2?''\<rparr>]
   \<and> generate_completion (one_process False) example_tokenizer 0 ()
       [\<lparr>role = ''user'', content = ''hi''\<rparr>, \<lparr>role = ''assistant'', content = ''hello''\<rparr>]
     = Inr ''rp''"
  using trailing_assistant_removed[of "[\<lparr>role = ''user'', content = ''hi''\<rparr>,
          \<lparr>role = ''assistant'', content = ''hello''\<rparr>]" "one_process False"
          example_tokenizer 0 "()"]
    trailing_assistant_removed[of "[\<lparr>role = ''user'', content = ''2+2?''\<rparr>]"
          "one_process False" example_tokenizer 0 "()"]
  by (simp add: example_defs)

text \<open>
  C5: the gathered rows are to be cut to the number of prompts before the win rate is
  computed. The code does not do that. On the \<^verbatim>\<open>Dataset\<close> of the callback's
  declaration line 76 raises before anything is gathered. On a dict of two columns
  holding three prompts, each with a stored reference, a single process judges three rows
  (win rate \<open>1/3\<close>) and \<^verbatim>\<open>on_evaluate\<close> cuts them to \<^verbatim>\<open>len(self.prompt_dataset)\<close>,
  the two keys of the dict: the win rate it logs is \<open>1/2\<close>, over the first two rows.
\<close>

theorem truncation_cuts_to_column_count:
  "fst (local_results (one_process False) example_tokenizer example_trained) =
     Inr [\<lparr>row_results = 0, row_prompts = ''hi'', row_completions = [''pp'', ''rp'']\<rparr>,
          \<lparr>row_results = 1, row_prompts = ''2+2?'', row_completions = [''pp'', ''rp'']\<rparr>,
          \<lparr>row_results = 1, row_prompts = ''bye'', row_completions = [''pp'', ''rp'']\<rparr>]
   \<and> win_rate [0, 1, 1] = Inr (1 / 3)
   \<and> py_len (prompt_dataset example_trained) = 2
   \<and> on_evaluate (one_process False) 7 example_kwargs example_trained =
       (Returned,
        example_trained
          \<lparr>log_history := [[(''win_rate'', LogFloat (1 / 2))]],
           reported := [[(''win_rate'', LogFloat (1 / 2))]]\<rparr>)
   \<and> on_evaluate (one_process False) 7 example_kwargs
         ((example_callback (Dataset example_dataset))\<lparr>ref_completions := [''rp'', ''rp'']\<rparr>) =
       (Raised AttributeError,
        (example_callback (Dataset example_dataset))\<lparr>ref_completions := [''rp'', ''rp'']\<rparr>)"
proof -
  have k: "example_kwargs ''tokenizer'' = Some example_tokenizer" by (simp add: example_kwargs_def)
  have d: "prompt_dataset ((example_callback (Dataset example_dataset))
             \<lparr>ref_completions := [''rp'', ''rp'']\<rparr>) = Dataset example_dataset"
    by (simp add: example_callback_def init_def)
  have "py_len (prompt_dataset example_trained) = 2"
    by (simp add: example_trained_def example_callback_def init_def example_columns_def
          column_lengths_def)
  moreover have "win_rate [0, 1, 1] = Inr (1 / 3)" by (simp add: win_rate_def)
  moreover note example_on_evaluate_no_wandb on_evaluate_Dataset[where kwargs = example_kwargs, OF k d]
  moreover have "fst (local_results (one_process False) example_tokenizer example_trained) =
     Inr [\<lparr>row_results = 0, row_prompts = ''hi'', row_completions = [''pp'', ''rp'']\<rparr>,
          \<lparr>row_results = 1, row_prompts = ''2+2?'', row_completions = [''pp'', ''rp'']\<rparr>,
          \<lparr>row_results = 1, row_prompts = ''bye'', row_completions = [''pp'', ''rp'']\<rparr>]"
    by (simp only: example_local_results fst_conv)
  ultimately show ?thesis by blast
qed







text \<open>
  C8: the tokens decoded into a completion are those of the generation at the positions
  from the tokenized input's length on; position \<open>j\<close> of the slice is position
  \<open>length input + j\<close> of the generation, so when the generation is the input followed by
  new tokens the slice is exactly the new tokens. The recorded text is the decoding of that
  slice.
\<close>

theorem completion_is_new_tokens:
  "completion_tokens E tok m g messages =
     drop (length (apply_chat_template tok messages))
       (generate E m g (apply_chat_template tok messages))
   \<and> (\<forall>j<length (completion_tokens E tok m g messages).
         completion_tokens E tok m g messages ! j =
           generate E m g (apply_chat_template tok messages)
             ! (length (apply_chat_template tok messages) + j))
   \<and> (\<forall>new. generate E m g (apply_chat_template tok messages)
               = apply_chat_template tok messages @ new
          \<longrightarrow> completion_tokens E tok m g messages = new)
   \<and> (conversation \<noteq> [] \<longrightarrow>
        (\<exists>input. generation_input conversation = Inr input \<and>
           generate_completion E tok m g conversation =
             Inr (batch_decode tok (completion_tokens E tok m g input))))"
  by (simp add: completion_tokens_drop generation_input_nonempty generate_completion_nonempty)

theorem completion_is_new_tokens_witness:
  "completion_tokens (one_process False) example_tokenizer 5 ()
       [\<lparr>role = ''user'', content = ''2+2?''\<rparr>] = [5, 2]
   \<and> apply_chat_template example_tokenizer [\<lparr>role = ''user'', content = ''2+2?''\<rparr>] = [4, 0]
   \<and> generate (one_process False) 5 () [4, 0] = [4, 0] @ [5, 2]
   \<and> completion_tokens (one_process False) example_tokenizer 5 ()
       [\<lparr>role = ''user'', content = ''2+2?''\<rparr>] ! 1 = [4, 0, 5, 2] ! (2 + 1)
   \<and> generate_completion (one_process False) example_tokenizer 5 ()
       [\<lparr>role = ''user'', content = ''2+2?''\<rparr>] = Inr ''pp''"
  using completion_is_new_tokens[of "one_process False" example_tokenizer 5 "()"
          "[\<lparr>role = ''user'', content = ''2+2?''\<rparr>]"
          "[\<lparr>role = ''user'', content = ''2+2?''\<rparr>]"]
  by (simp add: example_defs generation_input_def py_getitem_def)



text \<open>
  C10: on a conversation with at least one turn \<^verbatim>\<open>messages[-1]\<close> is the last turn and
  the generation goes through; on an empty conversation it raises \<^verbatim>\<open>IndexError\<close>,
  whatever the model and the tokenizer are, so nothing has been generated for it. A shard
  of a \<^verbatim>\<open>Dataset\<close> that holds an empty conversation makes \<^verbatim>\<open>on_train_begin\<close> raise
  \<^verbatim>\<open>IndexError\<close>, at once when it is the first; a dict whose shard reaches the loop of
  \<^verbatim>\<open>on_evaluate\<close> with an empty conversation makes \<^verbatim>\<open>on_evaluate\<close> raise it.
\<close>

theorem trailing_turn_index:
  "(messages \<noteq> [] \<longrightarrow>
      py_getitem messages (- 1) = Inr (last messages) \<and>
      (\<exists>text. generate_completion E tok m g messages = Inr text))
   \<and> py_getitem ([] :: turn list) (- 1) = Inl IndexError
   \<and> generate_completion E tok m g [] = Inl IndexError
   \<and> (kwargs ''tokenizer'' = Some tok \<and> prompt_dataset s = Dataset rows \<and>
        [] \<in> set (map chosen (split_rows E rows))
        \<longrightarrow> fst (on_train_begin E kwargs s) = Raised IndexError)
   \<and> (kwargs ''tokenizer'' = Some tok \<and> prompt_dataset s = Dataset rows \<and>
        split_rows E rows = first_row # rest \<and> chosen first_row = []
        \<longrightarrow> on_train_begin E kwargs s = (Raised IndexError, s\<lparr>training := False\<rparr>))
   \<and> (kwargs ''tokenizer'' = Some tok \<and> prompt_dataset t = Dict cols \<and>
        dataset_from_dict (Dict (split_columns E cols)) = Inr (split_columns E cols) \<and>
        prompt_column (split_columns E cols) = Some ps \<and>
        chosen_column (split_columns E cols) = Some convs \<and> [] \<in> set convs
        \<longrightarrow> on_evaluate E global_step kwargs t =
              (Raised IndexError,
               t\<lparr>prompt_dataset := Dict (split_columns E cols), training := False\<rparr>))"
proof (intro conjI impI)
  assume ne: "messages \<noteq> []"
  then show "py_getitem messages (- 1) = Inr (last messages)" by (rule py_getitem_last)
  from ne show "\<exists>text. generate_completion E tok m g messages = Inr text"
    by (simp add: generate_completion_nonempty)
next
  show "py_getitem ([] :: turn list) (- 1) = Inl IndexError" by (rule py_getitem_empty)
  show "generate_completion E tok m g [] = Inl IndexError" by (rule generate_completion_empty)
next
  assume "kwargs ''tokenizer'' = Some tok \<and> prompt_dataset s = Dataset rows \<and>
        [] \<in> set (map chosen (split_rows E rows))"
  then show "fst (on_train_begin E kwargs s) = Raised IndexError"
    using on_train_begin_empty_conversation[of kwargs tok s rows E] by blast
next
  assume a: "kwargs ''tokenizer'' = Some tok \<and> prompt_dataset s = Dataset rows \<and>
        split_rows E rows = first_row # rest \<and> chosen first_row = []"
  then have "on_train_begin E kwargs s =
     (case py_getitem (split_rows E rows) 0 of
        Inl e \<Rightarrow> (Raised e, s)
      | Inr first_row \<Rightarrow>
          (case ref_loop E tok (unwrap_model_for_generation E (model_wrapped s))
                  (map chosen (split_rows E rows)) (s\<lparr>training := False\<rparr>) of
             (Raised e, s2) \<Rightarrow> (Raised e, s2)
           | (Returned, s2) \<Rightarrow> (Returned, s2\<lparr>training := True\<rparr>)))"
    using on_train_begin_Dataset[of kwargs tok s rows E] by blast
  with a show "on_train_begin E kwargs s = (Raised IndexError, s\<lparr>training := False\<rparr>)"
    by (simp add: py_getitem_def generate_completion_empty)
next
  assume a: "kwargs ''tokenizer'' = Some tok \<and> prompt_dataset t = Dict cols \<and>
        dataset_from_dict (Dict (split_columns E cols)) = Inr (split_columns E cols) \<and>
        prompt_column (split_columns E cols) = Some ps \<and>
        chosen_column (split_columns E cols) = Some convs \<and> [] \<in> set convs"
  then have "local_results E tok t =
      (Inl IndexError, t\<lparr>prompt_dataset := Dict (split_columns E cols), training := False\<rparr>)"
    using local_results_empty_conversation[of t cols E ps convs tok] by blast
  with a show "on_evaluate E global_step kwargs t =
              (Raised IndexError,
               t\<lparr>prompt_dataset := Dict (split_columns E cols), training := False\<rparr>)"
    by (simp add: on_evaluate_def)
qed

theorem trailing_turn_index_witness:
  "py_getitem [\<lparr>role = ''user'', content = ''hi''\<rparr>] (- 1) = Inr \<lparr>role = ''user'', content = ''hi''\<rparr>
   \<and> (\<exists>text. generate_completion (one_process False) example_tokenizer 0 ()
                 [\<lparr>role = ''user'', content = ''hi''\<rparr>] = Inr text)
   \<and> on_train_begin (one_process False) example_kwargs
        (example_callback (Dataset [\<lparr>prompt = ''hi'', chosen = []\<rparr>]))
      = (Raised IndexError,
         (example_callback (Dataset [\<lparr>prompt = ''hi'', chosen = []\<rparr>]))\<lparr>training := False\<rparr>)
   \<and> fst (on_train_begin (one_process False) example_kwargs
        (example_callback (Dataset [\<lparr>prompt = ''hi'', chosen = []\<rparr>]))) = Raised IndexError
   \<and> fst (on_evaluate (one_process False) 7 example_kwargs
        (example_callback
           (Dict \<lparr>prompt_column = Some [''hi''], chosen_column = Some [[]],
                  other_columns = []\<rparr>))) = Raised IndexError"
proof -
  let ?row = "\<lparr>prompt = ''hi'', chosen = []\<rparr>"
  let ?cb = "example_callback (Dataset [?row]) :: (nat, unit) callback"
  let ?cols = "\<lparr>prompt_column = Some [''hi''], chosen_column = Some [[]], other_columns = []\<rparr>"
  let ?cd = "example_callback (Dict ?cols) :: (nat, unit) callback"
  let ?msgs = "[\<lparr>role = ''user'', content = ''hi''\<rparr>]"
  note t = trailing_turn_index[of ?msgs "one_process False" example_tokenizer 0 "()" example_kwargs
             ?cb "[?row]" ?row "[]" ?cd ?cols "[''hi'']" "[[]]" 7]
  have ne: "?msgs \<noteq> []" by simp
  have k: "example_kwargs ''tokenizer'' = Some example_tokenizer" by (simp add: example_kwargs_def)
  have d: "prompt_dataset ?cb = Dataset [?row]" by (simp add: example_callback_def init_def)
  have shard: "split_rows (one_process False) [?row] = ?row # []"
    by (simp add: one_process_def example_env_def padded_shard_def)
  have d': "prompt_dataset ?cd = Dict ?cols" by (simp add: example_callback_def init_def)
  have shard': "split_columns (one_process False) ?cols = ?cols"
    by (simp add: one_process_def example_env_def padded_columns_def padded_shard_def)
  have fd: "dataset_from_dict (Dict ?cols) = Inr ?cols" by (simp add: column_lengths_def)
  from t ne have "py_getitem ?msgs (- 1) = Inr (last ?msgs)"
    and g: "\<exists>text. generate_completion (one_process False) example_tokenizer 0 () ?msgs = Inr text"
    by blast+
  then have a: "py_getitem ?msgs (- 1) = Inr \<lparr>role = ''user'', content = ''hi''\<rparr>" by simp
  have pre1: "example_kwargs ''tokenizer'' = Some example_tokenizer \<and>
      prompt_dataset ?cb = Dataset [?row] \<and>
      [] \<in> set (map chosen (split_rows (one_process False) [?row]))"
    using k d shard by simp
  have pre2: "example_kwargs ''tokenizer'' = Some example_tokenizer \<and>
      prompt_dataset ?cb = Dataset [?row] \<and>
      split_rows (one_process False) [?row] = ?row # [] \<and> chosen ?row = []"
    using k d shard by simp
  have pre3: "example_kwargs ''tokenizer'' = Some example_tokenizer \<and>
      prompt_dataset ?cd = Dict ?cols \<and>
      dataset_from_dict (Dict (split_columns (one_process False) ?cols))
        = Inr (split_columns (one_process False) ?cols) \<and>
      prompt_column (split_columns (one_process False) ?cols) = Some [''hi''] \<and>
      chosen_column (split_columns (one_process False) ?cols) = Some [[]] \<and> [] \<in> set [[]]"
    using k d' fd unfolding shard' by simp
  from t pre1 have b: "fst (on_train_begin (one_process False) example_kwargs ?cb) = Raised IndexError"
    by blast
  from t pre2 have c: "on_train_begin (one_process False) example_kwargs ?cb
                         = (Raised IndexError, ?cb\<lparr>training := False\<rparr>)" by blast
  from t pre3 have "on_evaluate (one_process False) 7 example_kwargs ?cd =
      (Raised IndexError,
       ?cd\<lparr>prompt_dataset := Dict (split_columns (one_process False) ?cols), training := False\<rparr>)"
    by blast
  then have e: "fst (on_evaluate (one_process False) 7 example_kwargs ?cd) = Raised IndexError"
    by simp
  from a g b c e show ?thesis by blast
qed

end
